theory Spec2Isabelle
  imports Main "HOL-Library.Word"
begin

section \<open>Python values used by \<open>scripts/smokeping-add.py\<close>\<close>

text \<open>
  Exceptions are values. \<open>ResponseTooLarge c m\<close> is the
  \<^verbatim>\<open>ValueError(f'HTTP response too large ({c} > {m})')\<close> of line 60; \<open>ValueError msg\<close> is
  any other \<^verbatim>\<open>ValueError\<close> (raised by \<^verbatim>\<open>int()\<close> or \<^verbatim>\<open>ipaddress.ip_address\<close>);
  \<open>UnboundLocalError\<close> is what reading the never-assigned local \<^verbatim>\<open>text\<close> raises;
  \<open>Raised cls\<close> is an exception of class \<open>cls\<close> coming out of an external library
  (\<^verbatim>\<open>socket\<close>, \<^verbatim>\<open>requests\<close>, \<^verbatim>\<open>urllib\<close>, \<^verbatim>\<open>dns.resolver\<close>).
\<close>

datatype exn =
    AssertionError
  | ValueError string
  | ResponseTooLarge int int
  | UnboundLocalError
  | IndexError
  | Raised string

text \<open>
  A variable that holds \<^verbatim>\<open>None\<close> or a \<^verbatim>\<open>str\<close> is a \<open>string option\<close>; Python's truth
  value of it is false for \<^verbatim>\<open>None\<close> and for the empty string.
\<close>

definition truthy :: "string option \<Rightarrow> bool" where
  "truthy v = (case v of None \<Rightarrow> False | Some s \<Rightarrow> s \<noteq> [])"

subsection \<open>String methods\<close>

text \<open>
  Text is a list of characters. The case conversions are those of \<^verbatim>\<open>str.upper\<close>,
  \<^verbatim>\<open>str.lower\<close> and \<^verbatim>\<open>str.title\<close> on ASCII text: the 26 letters are converted, every
  other character is kept. Text outside ASCII is not covered: there Python also converts
  other letters (\<^verbatim>\<open>str.upper\<close> may even change the length), \<^verbatim>\<open>str.title\<close> counts them as
  cased, and \<^verbatim>\<open>str.strip\<close> removes further spaces such as U+00A0.
\<close>

definition ascii_lowercase :: string where
  "ascii_lowercase = ''abcdefghijklmnopqrstuvwxyz''"

definition ascii_uppercase :: string where
  "ascii_uppercase = ''ABCDEFGHIJKLMNOPQRSTUVWXYZ''"

definition upper_char :: "char \<Rightarrow> char" where
  "upper_char c =
     (case map_of (zip ascii_lowercase ascii_uppercase) c of Some u \<Rightarrow> u | None \<Rightarrow> c)"

definition lower_char :: "char \<Rightarrow> char" where
  "lower_char c =
     (case map_of (zip ascii_uppercase ascii_lowercase) c of Some l \<Rightarrow> l | None \<Rightarrow> c)"

definition upper :: "string \<Rightarrow> string" where
  "upper s = map upper_char s"

definition is_cased :: "char \<Rightarrow> bool" where
  "is_cased c = (c \<in> set (ascii_lowercase @ ascii_uppercase))"

text \<open>
  \<^verbatim>\<open>str.title\<close>: a cased character is upper-cased when the character before it is
  not cased (or there is none) and lower-cased otherwise. The flag is CPython's
  \<^verbatim>\<open>previous_is_cased\<close>.
\<close>

fun title_from :: "bool \<Rightarrow> string \<Rightarrow> string" where
  "title_from previous_is_cased [] = []"
| "title_from previous_is_cased (c # cs) =
     (if is_cased c
      then (if previous_is_cased then lower_char c else upper_char c) # title_from True cs
      else c # title_from False cs)"

definition title :: "string \<Rightarrow> string" where
  "title s = title_from False s"

text \<open>\<^verbatim>\<open>str.strip()\<close> removes the ASCII whitespace of \<^verbatim>\<open>str.isspace\<close> at both ends.\<close>

definition is_space :: "char \<Rightarrow> bool" where
  "is_space c = ((of_char c :: nat) \<in> {9, 10, 11, 12, 13, 28, 29, 30, 31, 32})"

definition strip :: "string \<Rightarrow> string" where
  "strip s = rev (dropWhile is_space (rev (dropWhile is_space s)))"

text \<open>\<^verbatim>\<open>s.split(sep)[0]\<close> for a one-character separator: the text before its first occurrence.\<close>

definition split_first :: "char \<Rightarrow> string \<Rightarrow> string" where
  "split_first sep s = takeWhile (\<lambda>c. c \<noteq> sep) s"

text \<open>\<^verbatim>\<open>s.startswith(p)\<close> and the substring test \<^verbatim>\<open>p in s\<close>.\<close>

definition startswith :: "string \<Rightarrow> string \<Rightarrow> bool" where
  "startswith s p = (take (length p) s = p)"

fun contains :: "string \<Rightarrow> string \<Rightarrow> bool" where
  "contains [] p = (p = [])"
| "contains (c # cs) p = (startswith (c # cs) p \<or> contains cs p)"

section \<open>The formatter \<open>fmt_smokeping\<close> (lines 99-140)\<close>

text \<open>
  An entry of \<^verbatim>\<open>pycountry.countries\<close>. Every entry has a \<open>name\<close>; some also have a
  \<open>common_name\<close>. The table itself belongs to the \<^verbatim>\<open>pycountry\<close> package, so the
  lookup \<^verbatim>\<open>pycountry.countries.get(alpha_2=...)\<close> is a parameter of the formatter: it
  returns \<open>None\<close> for a code the table does not have.
\<close>

record country_entry =
  name :: string
  common_name :: "string option"

type_synonym pycountry = "string \<Rightarrow> country_entry option"

text \<open>
  The formatter prints lines and may fail an assertion on the way. Its result is the
  list of lines printed so far, in order, and the exception that ended it, if any.

  Line 126 reads \<^verbatim>\<open>getattr(pycountry_country, 'common_name', pycountry_entry.name)\<close>:
  the attribute is looked up on the \<^verbatim>\<open>str\<close> \<^verbatim>\<open>pycountry_country\<close>, which has none, so
  the value is always the default, \<^verbatim>\<open>pycountry_entry.name\<close>.
\<close>

definition fmt_smokeping ::
  "pycountry \<Rightarrow> string \<Rightarrow> string \<Rightarrow> string \<Rightarrow> string \<Rightarrow> string \<Rightarrow> string \<Rightarrow> int
     \<Rightarrow> string list \<times> exn option" where
  "fmt_smokeping countries_get entry_name address isp country_arg province_arg city_arg levels =
     (if \<not> levels \<ge> 0 then ([], Some AssertionError)
      else
        let hdr = replicate (nat levels) CHR ''+'';
            country = upper country_arg;
            province = upper province_arg;
            city = title city_arg;
            printed = [hdr @ '' '' @ entry_name];
            pycountry_country = (if country = ''UK'' then ''GB'' else country)
        in case countries_get pycountry_country of
             None \<Rightarrow> (printed, Some AssertionError)
           | Some pycountry_entry \<Rightarrow>
               let isp_short = strip (split_first CHR ''@'' isp);
                   (cc_prefix, city, loc) =
                     (if country \<in> {''CA'', ''US''}
                      then (''['' @ country @ ''/'' @ province @ '']'',
                            city,
                            city @ '', '' @ province @ '', '' @ country)
                      else
                        let (city, country_display) =
                              (if country \<in> {''HK'', ''MO''} then (name pycountry_entry, ''China'')
                               else if country = ''RU'' then (city, ''Russia'')
                               else (city, name pycountry_entry));
                            city = (if country = ''SG'' then [] else city)
                        in (country, city,
                            if city \<noteq> [] then city @ '', '' @ country_display
                            else country_display));
                   menu =
                     (if city \<noteq> [] \<and>
                         (cc_prefix \<in> {''US/CA'', ''DE'', ''FR'', ''CN'', ''RU'', ''IN'', ''BR''} \<or>
                          (cc_prefix = ''UK'' \<and> \<not> contains city ''London'') \<or>
                          (cc_prefix = ''JP'' \<and> \<not> contains city ''Tokyo'') \<or>
                          (cc_prefix = ''US/NY'' \<and> \<not> contains city ''New York'') \<or>
                          (cc_prefix = ''AU'' \<and> \<not> contains city ''Sydney''))
                      then ''menu = ['' @ cc_prefix @ ''] '' @ isp_short @ '' ('' @ city @ '')''
                      else ''menu = ['' @ cc_prefix @ ''] '' @ isp_short)
               in (printed @
                   [menu,
                    ''title = ['' @ cc_prefix @ ''] '' @ isp @ '' - '' @ loc @ '' ['' @ address @ '']'',
                    ''host = '' @ address],
                   None))"

text \<open>A few rows of the ISO 3166 table, as \<^verbatim>\<open>pycountry\<close> has them, for concrete runs.\<close>

definition iso_sample :: pycountry where
  "iso_sample =
     map_of
       [(''US'', \<lparr>name = ''United States'', common_name = None\<rparr>),
        (''CA'', \<lparr>name = ''Canada'', common_name = None\<rparr>),
        (''GB'', \<lparr>name = ''United Kingdom'', common_name = None\<rparr>),
        (''DE'', \<lparr>name = ''Germany'', common_name = None\<rparr>),
        (''JP'', \<lparr>name = ''Japan'', common_name = None\<rparr>),
        (''HK'', \<lparr>name = ''Hong Kong'', common_name = None\<rparr>),
        (''SG'', \<lparr>name = ''Singapore'', common_name = None\<rparr>),
        (''RU'', \<lparr>name = ''Russian Federation'', common_name = None\<rparr>),
        (''TW'', \<lparr>name = ''Taiwan, Province of China'', common_name = Some ''Taiwan''\<rparr>)]"


section \<open>Addresses (\<^verbatim>\<open>ipaddress\<close>)\<close>

text \<open>
  An address object holds its integer value: 32 bits for \<^verbatim>\<open>IPv4Address\<close>, 128 bits for
  \<^verbatim>\<open>IPv6Address\<close>. An \<^verbatim>\<open>IPv6Address\<close> also holds its zone id (\<^verbatim>\<open>scope_id\<close>), the text
  after \<^verbatim>\<open>%\<close> in a literal such as \<^verbatim>\<open>fe80::1%eth0\<close>; it is \<open>None\<close> for a literal without
  one. Two addresses are equal when value and zone id are.
\<close>

datatype ip_addr = IPv4Address "32 word" | IPv6Address "128 word" "string option"

fun is_IPv4Address :: "ip_addr \<Rightarrow> bool" where
  "is_IPv4Address (IPv4Address _) = True"
| "is_IPv4Address (IPv6Address _ _) = False"

fun is_IPv6Address :: "ip_addr \<Rightarrow> bool" where
  "is_IPv6Address (IPv4Address _) = False"
| "is_IPv6Address (IPv6Address _ _) = True"

fun scope_id :: "ip_addr \<Rightarrow> string option" where
  "scope_id (IPv4Address _) = None"
| "scope_id (IPv6Address _ zone) = zone"

text \<open>\<^verbatim>\<open>str(n)\<close> for a natural number, and one lower-case hexadecimal digit.\<close>

fun str_nat :: "nat \<Rightarrow> string" where
  "str_nat n =
     (if n < 10 then [''0123456789'' ! n]
      else str_nat (n div 10) @ [''0123456789'' ! (n mod 10)])"

declare str_nat.simps [simp del]

definition hex_digit :: "nat \<Rightarrow> char" where
  "hex_digit n = ''0123456789abcdef'' ! (n mod 16)"

text \<open>\<^verbatim>\<open>sep.join(parts)\<close>.\<close>

fun join :: "string \<Rightarrow> string list \<Rightarrow> string" where
  "join sep [] = []"
| "join sep [x] = x"
| "join sep (x # y # ys) = x @ sep @ join sep (y # ys)"

text \<open>
  The four octets of an IPv4 address, most significant first, and the 32 hexadecimal
  digits of an IPv6 address, least significant first (the exploded form read backwards
  without its colons).
\<close>

definition octets :: "32 word \<Rightarrow> nat list" where
  "octets w = map (\<lambda>i. (unat w div 256 ^ i) mod 256) [3, 2, 1, 0]"

definition reverse_nibbles :: "128 word \<Rightarrow> string list" where
  "reverse_nibbles w = map (\<lambda>i. [hex_digit (unat w div 16 ^ i)]) [0..<32]"

text \<open>
  \<^verbatim>\<open>ip.reverse_pointer\<close>: \<^verbatim>\<open>'.'.join(str(ip).split('.')[::-1]) + '.in-addr.arpa'\<close> for
  IPv4 and \<^verbatim>\<open>'.'.join(ip.exploded[::-1].replace(':', '')) + '.ip6.arpa'\<close> for IPv6.
  For an IPv6 address with a zone id the property raises: \<^verbatim>\<open>exploded\<close> parses
  \<^verbatim>\<open>str(ip)\<close> again, zone included, and fails with \<^verbatim>\<open>AddressValueError\<close>, a subclass of
  \<^verbatim>\<open>ValueError\<close> (its message is shortened here to the zone id).
\<close>

fun reverse_pointer :: "ip_addr \<Rightarrow> exn + string" where
  "reverse_pointer (IPv4Address w) =
     Inr (join ''.'' (rev (map str_nat (octets w))) @ ''.in-addr.arpa'')"
| "reverse_pointer (IPv6Address w None) = Inr (join ''.'' (reverse_nibbles w) @ ''.ip6.arpa'')"
| "reverse_pointer (IPv6Address w (Some zone)) =
     Inl (ValueError (''Only hex digits permitted in zone '' @ zone))"

text \<open>
  \<^verbatim>\<open>s.replace(old, new)\<close>: every occurrence of \<open>old\<close>, found from the left without
  overlap, becomes \<open>new\<close>. (With an empty \<open>old\<close>, \<open>new\<close> goes before every character
  and at the end.)
\<close>

function replace :: "string \<Rightarrow> string \<Rightarrow> string \<Rightarrow> string" where
  "replace [] old new = (if old = [] then new else [])"
| "replace (c # cs) old new =
     (if old = [] then new @ c # replace cs old new
      else if startswith (c # cs) old then new @ replace (drop (length old) (c # cs)) old new
      else c # replace cs old new)"
  by pat_completeness auto
termination
  by (relation "measure (\<lambda>(s, old, new). length s)") auto

section \<open>\<open>get_ipinfo\<close> (lines 15-27)\<close>

text \<open>
  What \<^verbatim>\<open>dns.resolver.resolve(name, 'TXT')\<close> does: it returns an answer, whose records
  are given here by their \<^verbatim>\<open>to_text()\<close>, or raises. \<open>DNSException cls msg\<close> is an
  exception of a subclass of \<^verbatim>\<open>dns.exception.DNSException\<close>, with \<open>cls\<close> the text of
  \<^verbatim>\<open>e.__class__\<close> and \<open>msg\<close> the text of \<^verbatim>\<open>e\<close>; \<open>OtherError cls\<close> is any exception
  that is not a \<^verbatim>\<open>DNSException\<close>.
\<close>

datatype dns_outcome =
    Answer "string list"
  | DNSException string string
  | OtherError string

text \<open>
  The streamed HTTP response: whether \<^verbatim>\<open>raise_for_status()\<close> passes, the header
  dictionary, and the chunks \<^verbatim>\<open>iter_content(n)\<close> yields, in order.
\<close>

type_synonym bytes = string

record response =
  status_ok :: bool
  headers :: "string \<Rightarrow> string option"
  iter_content :: "int \<Rightarrow> bytes list"

text \<open>
  The libraries and the network, as the script sees them. A function that can raise
  returns \<open>Inl\<close> with the exception's class name (for \<open>ip_address\<close>: the message of
  its \<^verbatim>\<open>ValueError\<close>).
  \<^item> \<open>urlparse url\<close>: the \<^verbatim>\<open>scheme\<close> and \<^verbatim>\<open>netloc\<close> of \<^verbatim>\<open>urllib.parse.urlparse(url)\<close>;
  \<^item> \<open>getaddrinfo netloc\<close>: the addresses of line 42, in the iteration order of the set;
  \<^item> \<open>requests_get url\<close>: the response of line 56;
  \<^item> \<open>decode chunk\<close>: \<^verbatim>\<open>chunk.decode('utf-8', 'ignore')\<close>;
  \<^item> \<open>int_of_str s\<close>: \<^verbatim>\<open>int(s)\<close>, \<open>None\<close> when it raises \<^verbatim>\<open>ValueError\<close>;
  \<^item> \<open>IP4_RE_finditer text\<close>, \<open>IP6_RE_finditer text\<close>: \<^verbatim>\<open>group(0)\<close> of the successive
    matches of the two patterns;
  \<^item> \<open>ip_address s\<close>: \<^verbatim>\<open>ipaddress.ip_address(s)\<close>;
  \<^item> \<open>is_global ip\<close>: \<^verbatim>\<open>ip.is_global\<close>;
  \<^item> \<open>resolve name rdtype\<close>: \<^verbatim>\<open>dns.resolver.resolve(name, rdtype)\<close>.
\<close>

record env =
  urlparse :: "string \<Rightarrow> string + (string \<times> string)"
  getaddrinfo :: "string \<Rightarrow> string + ip_addr list"
  requests_get :: "string \<Rightarrow> string + response"
  decode :: "bytes \<Rightarrow> string"
  int_of_str :: "string \<Rightarrow> int option"
  IP4_RE_finditer :: "string \<Rightarrow> string list"
  IP6_RE_finditer :: "string \<Rightarrow> string list"
  ip_address :: "string \<Rightarrow> string + ip_addr"
  is_global :: "ip_addr \<Rightarrow> bool"
  resolve :: "string \<Rightarrow> string \<Rightarrow> dns_outcome"

text \<open>
  Lines 17-22: the name whose TXT record is asked for, or the exception of
  \<^verbatim>\<open>ip.reverse_pointer\<close>. These lines are outside the \<^verbatim>\<open>try\<close> of line 23.
\<close>

fun dns_query_of :: "ip_addr \<Rightarrow> exn + string" where
  "dns_query_of (IPv4Address w) =
     (case reverse_pointer (IPv4Address w) of
        Inl e \<Rightarrow> Inl e
      | Inr pointer \<Rightarrow> Inr (replace pointer ''in-addr.arpa'' ''origin.asn.cymru.com''))"
| "dns_query_of (IPv6Address w zone) =
     (case reverse_pointer (IPv6Address w zone) of
        Inl e \<Rightarrow> Inl e
      | Inr pointer \<Rightarrow> Inr (replace pointer ''ip6.arpa'' ''origin6.asn.cymru.com''))"

definition get_ipinfo :: "env \<Rightarrow> string \<Rightarrow> exn + string" where
  "get_ipinfo E ip_str =
     (case ip_address E ip_str of
        Inl msg \<Rightarrow> Inl (ValueError msg)
      | Inr ip \<Rightarrow>
          (case dns_query_of ip of
             Inl e \<Rightarrow> Inl e
           | Inr dns_query \<Rightarrow>
               (case resolve E dns_query ''TXT'' of
                  DNSException cls msg \<Rightarrow> Inr (cls @ '': '' @ msg)
                | OtherError cls \<Rightarrow> Inl (Raised cls)
                | Answer dns_result \<Rightarrow>
                    (case dns_result of [] \<Rightarrow> Inl IndexError | first # _ \<Rightarrow> Inr first))))"


section \<open>\<open>scrape_ips\<close> (lines 37-92)\<close>

text \<open>
  What \<open>scrape_ips\<close> prints, in order: the resolved set (line 43), an ASN line for an
  accepted candidate (lines 73 and 83: the candidate and its \<open>get_ipinfo\<close>), and the
  note about a skipped IPv6 candidate (line 87: the candidate and the error's message).
\<close>

datatype printed =
    PrintDnsResults "ip_addr list"
  | PrintAsnInfo string string
  | PrintSkippingV6 string string

text \<open>
  A run of \<open>scrape_ips\<close>: what it returns or raises, what it printed, and how many
  chunks of the body it took from \<^verbatim>\<open>iter_content\<close>.
\<close>

record run =
  result :: "exn + (string option \<times> string option)"
  stdout :: "printed list"
  body_reads :: nat

text \<open>
  Lines 47-53, the loop of the DNS-only mode over the resolved addresses, with the
  current values of \<^verbatim>\<open>ipv4\<close> and \<^verbatim>\<open>ipv6\<close>.
\<close>

fun dns_only_loop ::
  "string \<Rightarrow> ip_addr list \<Rightarrow> string option \<Rightarrow> string option \<Rightarrow> string option \<times> string option" where
  "dns_only_loop netloc [] ipv4 ipv6 = (ipv4, ipv6)"
| "dns_only_loop netloc (ip # rest) ipv4 ipv6 =
     (if truthy ipv4 \<and> truthy ipv6 then (ipv4, ipv6)
      else
        let ipv4' = (if \<not> truthy ipv4 \<and> is_IPv4Address ip then Some netloc else ipv4);
            ipv6' = (if \<not> truthy ipv6 \<and> is_IPv6Address ip then Some netloc else ipv6)
        in dns_only_loop netloc rest ipv4' ipv6')"

text \<open>
  Lines 61-66, the loop over the chunks still to come, with the current
  \<^verbatim>\<open>total_length\<close>, the current \<^verbatim>\<open>text\<close> (\<open>None\<close> while it is unassigned) and the number
  of chunks taken so far. Each iteration takes a chunk, then stops if the total is over
  the budget, else assigns the chunk's decoded text to \<^verbatim>\<open>text\<close> and adds its length
  to the total. It gives the final \<^verbatim>\<open>text\<close> and the number of chunks taken.
\<close>

fun read_chunks ::
  "(bytes \<Rightarrow> string) \<Rightarrow> int \<Rightarrow> bytes list \<Rightarrow> int \<Rightarrow> string option \<Rightarrow> nat
     \<Rightarrow> string option \<times> nat" where
  "read_chunks dec maxsize [] total_length text reads = (text, reads)"
| "read_chunks dec maxsize (chunk # rest) total_length text reads =
     (if total_length > maxsize then (text, Suc reads)
      else read_chunks dec maxsize rest
             (total_length + int (length (dec chunk))) (Some (dec chunk)) (Suc reads))"

text \<open>
  Lines 68-76, the loop over the IPv4 matches still to come, with the current value of
  \<^verbatim>\<open>ipv4\<close> and the lines printed so far. \<^verbatim>\<open>ipaddress.ip_address\<close> is outside any
  \<^verbatim>\<open>try\<close> here, so its \<^verbatim>\<open>ValueError\<close> ends the run.
\<close>

fun scan_ipv4 ::
  "env \<Rightarrow> string \<Rightarrow> ip_addr list \<Rightarrow> string list \<Rightarrow> string option \<Rightarrow> printed list
     \<Rightarrow> (exn + string option) \<times> printed list" where
  "scan_ipv4 E netloc dns_results [] ipv4 out = (Inr ipv4, out)"
| "scan_ipv4 E netloc dns_results (m_ipv4 # rest) ipv4 out =
     (case ip_address E m_ipv4 of
        Inl msg \<Rightarrow> (Inl (ValueError msg), out)
      | Inr ipaddr \<Rightarrow>
          if \<not> is_global E ipaddr then scan_ipv4 E netloc dns_results rest (Some m_ipv4) out
          else
            (case get_ipinfo E m_ipv4 of
               Inl e \<Rightarrow> (Inl e, out)
             | Inr info \<Rightarrow>
                 (Inr (if ipaddr \<in> set dns_results then Some netloc else Some m_ipv4),
                  out @ [PrintAsnInfo m_ipv4 info])))"

text \<open>
  Lines 77-90, the loop over the IPv6 matches. A \<^verbatim>\<open>ValueError\<close> inside the
  \<^verbatim>\<open>try\<close> (from \<^verbatim>\<open>ip_address\<close>, or out of \<open>get_ipinfo\<close>) is caught: the candidate is
  reported, \<^verbatim>\<open>ipv6\<close> is reset to \<^verbatim>\<open>None\<close> and the loop goes on. Any other exception
  ends the run.
\<close>

fun scan_ipv6 ::
  "env \<Rightarrow> string \<Rightarrow> ip_addr list \<Rightarrow> string list \<Rightarrow> string option \<Rightarrow> printed list
     \<Rightarrow> (exn + string option) \<times> printed list" where
  "scan_ipv6 E netloc dns_results [] ipv6 out = (Inr ipv6, out)"
| "scan_ipv6 E netloc dns_results (m_ipv6 # rest) ipv6 out =
     (case ip_address E m_ipv6 of
        Inl msg \<Rightarrow>
          scan_ipv6 E netloc dns_results rest None (out @ [PrintSkippingV6 m_ipv6 msg])
      | Inr ipaddr \<Rightarrow>
          if \<not> is_global E ipaddr then scan_ipv6 E netloc dns_results rest (Some m_ipv6) out
          else
            (case get_ipinfo E m_ipv6 of
               Inl (ValueError msg) \<Rightarrow>
                 scan_ipv6 E netloc dns_results rest None (out @ [PrintSkippingV6 m_ipv6 msg])
             | Inl e \<Rightarrow> (Inl e, out)
             | Inr info \<Rightarrow>
                 (Inr (if ipaddr \<in> set dns_results then Some netloc else Some m_ipv6),
                  out @ [PrintAsnInfo m_ipv6 info])))"

text \<open>
  Lines 38-42: the URL to fetch, the host name and the resolved addresses, or the
  exception of \<^verbatim>\<open>urlparse\<close> or of the resolution.
\<close>

definition resolve_host :: "env \<Rightarrow> string \<Rightarrow> exn + (string \<times> string \<times> ip_addr list)" where
  "resolve_host E url =
     (case urlparse E url of
        Inl cls \<Rightarrow> Inl (Raised cls)
      | Inr (scheme, url_netloc) \<Rightarrow>
          let netloc = (if url_netloc \<noteq> [] then url_netloc else url);
              url' = (if scheme = [] then ''http://'' @ url else url)
          in case getaddrinfo E netloc of
               Inl cls \<Rightarrow> Inl (Raised cls)
             | Inr dns_results \<Rightarrow> Inr (url', netloc, dns_results))"

text \<open>Lines 56-57: the request, and \<^verbatim>\<open>raise_for_status\<close>.\<close>

definition fetch :: "env \<Rightarrow> string \<Rightarrow> exn + response" where
  "fetch E url =
     (case requests_get E url of
        Inl cls \<Rightarrow> Inl (Raised cls)
      | Inr r \<Rightarrow> if status_ok r then Inr r else Inl (Raised ''HTTPError''))"

text \<open>Line 58: \<^verbatim>\<open>int(r.headers.get('Content-Length', 0))\<close>.\<close>

definition content_length_of :: "env \<Rightarrow> response \<Rightarrow> exn + int" where
  "content_length_of E r =
     (case headers r ''Content-Length'' of
        None \<Rightarrow> Inr 0
      | Some v \<Rightarrow>
          (case int_of_str E v of
             None \<Rightarrow> Inl (ValueError ''invalid literal for int()'')
           | Some n \<Rightarrow> Inr n))"

text \<open>
  Lines 58-92: everything after the response has arrived. \<open>out\<close> is what was printed
  before.
\<close>

definition scrape_response ::
  "env \<Rightarrow> string \<Rightarrow> ip_addr list \<Rightarrow> response \<Rightarrow> int \<Rightarrow> printed list \<Rightarrow> run" where
  "scrape_response E netloc dns_results r maxsize out =
     (case content_length_of E r of
        Inl e \<Rightarrow> \<lparr>result = Inl e, stdout = out, body_reads = 0\<rparr>
      | Inr content_length \<Rightarrow>
          if content_length > maxsize
          then \<lparr>result = Inl (ResponseTooLarge content_length maxsize), stdout = out,
                 body_reads = 0\<rparr>
          else
            (case read_chunks (decode E) maxsize (iter_content r maxsize) 0 None 0 of
               (None, reads) \<Rightarrow>
                 \<lparr>result = Inl UnboundLocalError, stdout = out, body_reads = reads\<rparr>
             | (Some text, reads) \<Rightarrow>
                 (case scan_ipv4 E netloc dns_results (IP4_RE_finditer E text) None out of
                    (Inl e, out4) \<Rightarrow> \<lparr>result = Inl e, stdout = out4, body_reads = reads\<rparr>
                  | (Inr ipv4, out4) \<Rightarrow>
                      (case scan_ipv6 E netloc dns_results (IP6_RE_finditer E text) None out4 of
                         (Inl e, out6) \<Rightarrow>
                           \<lparr>result = Inl e, stdout = out6, body_reads = reads\<rparr>
                       | (Inr ipv6, out6) \<Rightarrow>
                           if truthy ipv4 \<or> truthy ipv6
                           then \<lparr>result = Inr (ipv4, ipv6), stdout = out6, body_reads = reads\<rparr>
                           else \<lparr>result = Inl AssertionError, stdout = out6,
                                  body_reads = reads\<rparr>))))"

definition scrape_ips :: "env \<Rightarrow> string \<Rightarrow> bool \<Rightarrow> int \<Rightarrow> run" where
  "scrape_ips E url force_dns maxsize =
     (case resolve_host E url of
        Inl e \<Rightarrow> \<lparr>result = Inl e, stdout = [], body_reads = 0\<rparr>
      | Inr (url', netloc, dns_results) \<Rightarrow>
          let out = [PrintDnsResults dns_results] in
          if force_dns
          then \<lparr>result = Inr (dns_only_loop netloc dns_results None None), stdout = out,
                 body_reads = 0\<rparr>
          else
            (case fetch E url' of
               Inl e \<Rightarrow> \<lparr>result = Inl e, stdout = out, body_reads = 0\<rparr>
             | Inr r \<Rightarrow> scrape_response E netloc dns_results r maxsize out))"


section \<open>Classification of a candidate, and sample collaborators\<close>

text \<open>
  The test the two scans apply to a candidate (lines 70-71 and 80-81): it is
  \<open>accepted\<close> when it parses as an address that is global, \<open>rejected\<close> when it parses
  as an address that is not.
\<close>

definition accepted :: "env \<Rightarrow> string \<Rightarrow> bool" where
  "accepted E m = (case ip_address E m of Inl _ \<Rightarrow> False | Inr ip \<Rightarrow> is_global E ip)"

definition rejected :: "env \<Rightarrow> string \<Rightarrow> bool" where
  "rejected E m = (case ip_address E m of Inl _ \<Rightarrow> False | Inr ip \<Rightarrow> \<not> is_global E ip)"

text \<open>
  The four networks the specification names as never acceptable: \<open>10.0.0.0/8\<close>,
  \<open>127.0.0.0/8\<close>, \<open>169.254.0.0/16\<close> and \<open>fe80::/10\<close>.
\<close>

fun in_named_networks :: "ip_addr \<Rightarrow> bool" where
  "in_named_networks (IPv4Address w) =
     (unat w div 2 ^ 24 = 10 \<or> unat w div 2 ^ 24 = 127 \<or> unat w div 2 ^ 16 = 169 * 256 + 254)"
| "in_named_networks (IPv6Address w zone) = (unat w div 2 ^ 118 = 1018)"

text \<open>
  Collaborators for concrete runs. They answer as the real libraries do on the few
  inputs used below: a bare host name has no scheme and no netloc for \<^verbatim>\<open>urlparse\<close>;
  the host resolves to \<open>addrs\<close>; the request returns \<open>r\<close>; the body is ASCII, which
  decodes to itself; the two patterns find the address literals of the sample pages;
  \<open>10.0.0.1\<close>, \<open>8.8.8.8\<close>, \<open>fe80::1\<close> and \<open>fe80::1%eth0\<close> parse to their values; an
  address is global
  unless it lies in one of the four named networks; and the resolver knows the origin
  of \<open>8.8.8.8\<close> only.
\<close>

definition sample_response :: "(string \<times> string) list \<Rightarrow> bytes list \<Rightarrow> response" where
  "sample_response hdrs chunks =
     \<lparr>status_ok = True, headers = map_of hdrs, iter_content = (\<lambda>n. chunks)\<rparr>"

definition sample_matches :: "(string \<times> string list) list \<Rightarrow> string \<Rightarrow> string list" where
  "sample_matches table t = (case map_of table t of None \<Rightarrow> [] | Some ms \<Rightarrow> ms)"

definition sample_env :: "ip_addr list \<Rightarrow> response \<Rightarrow> env" where
  "sample_env addrs r =
     \<lparr>urlparse = (\<lambda>u. Inr ([], [])),
      getaddrinfo = (\<lambda>h. Inr addrs),
      requests_get = (\<lambda>u. Inr r),
      decode = (\<lambda>b. b),
      int_of_str = map_of [(''100000'', 100000), (''512'', 512)],
      IP4_RE_finditer =
        sample_matches
          [(''10.0.0.1'', [''10.0.0.1'']),
           (''10.0.0.1 fe80::1'', [''10.0.0.1'']),
           (''8.8.8.8 '', [''8.8.8.8'']),
           (''8.8.8.8 hello'', [''8.8.8.8''])],
      IP6_RE_finditer = sample_matches [(''10.0.0.1 fe80::1'', [''fe80::1''])],
      ip_address =
        (\<lambda>s. case map_of
                   [(''10.0.0.1'', IPv4Address 0x0A000001),
                    (''8.8.8.8'', IPv4Address 0x08080808),
                    (''fe80::1'', IPv6Address 0xFE800000000000000000000000000001 None),
                    (''fe80::1%eth0'',
                     IPv6Address 0xFE800000000000000000000000000001 (Some ''eth0''))] s of
               None \<Rightarrow> Inl ''does not appear to be an IPv4 or IPv6 address''
             | Some ip \<Rightarrow> Inr ip),
      is_global = (\<lambda>ip. \<not> in_named_networks ip),
      resolve =
        (\<lambda>qname rdtype.
           if qname = ''8.8.8.8.origin.asn.cymru.com'' \<and> rdtype = ''TXT''
           then Answer [''15169 | 8.8.8.0/24 | US | arin | 2023-12-28'']
           else DNSException ''dns.resolver.NXDOMAIN'' ''The DNS query name does not exist'')\<rparr>"


text \<open>
  The query name as the specification describes it: the address's reverse-pointer form
  under \<open>origin.asn.cymru.com\<close> (IPv4: the octets, last first) or under
  \<open>origin6.asn.cymru.com\<close> (IPv6: the 32 hexadecimal digits, last first).
\<close>

fun origin_query_name :: "ip_addr \<Rightarrow> string" where
  "origin_query_name (IPv4Address w) =
     join ''.'' (rev (map str_nat (octets w))) @ ''.origin.asn.cymru.com''"
| "origin_query_name (IPv6Address w zone) =
     join ''.'' (reverse_nibbles w) @ ''.origin6.asn.cymru.com''"

text \<open>
  What \<open>get_ipinfo\<close> expects of the resolver: an answer holds at least one record
  (\<^verbatim>\<open>resolve\<close> raises \<^verbatim>\<open>NoAnswer\<close> rather than returning an empty answer), and
  every failure of a resolution is a \<^verbatim>\<open>DNSException\<close>.
\<close>

definition resolver_answers_or_dns_error :: "dns_outcome \<Rightarrow> bool" where
  "resolver_answers_or_dns_error outcome =
     (case outcome of
        Answer records \<Rightarrow> records \<noteq> []
      | DNSException cls msg \<Rightarrow> True
      | OtherError cls \<Rightarrow> False)"

section \<open>Facts about the helpers\<close>

lemmas str_defs =
  upper_def upper_char_def lower_char_def ascii_lowercase_def ascii_uppercase_def
  title_def is_cased_def strip_def is_space_def split_first_def startswith_def

lemmas sample_defs = sample_env_def sample_response_def sample_matches_def

lemmas phase_defs = resolve_host_def fetch_def content_length_of_def

subsection \<open>The DNS-only loop\<close>

lemma dns_only_loop_eq:
  assumes "ipv4 = None \<or> ipv4 = Some netloc" "ipv6 = None \<or> ipv6 = Some netloc"
  shows "dns_only_loop netloc ips ipv4 ipv6 =
     (if ipv4 = Some netloc \<or> list_ex is_IPv4Address ips then Some netloc else None,
      if ipv6 = Some netloc \<or> list_ex is_IPv6Address ips then Some netloc else None)"
  using assms
proof (induction ips arbitrary: ipv4 ipv6)
  case Nil
  then show ?case by auto
next
  case (Cons ip rest)
  show ?case
  proof (cases "truthy ipv4 \<and> truthy ipv6")
    case True
    with Cons.prems show ?thesis by (auto simp: truthy_def)
  next
    case False
    let ?v4 = "if \<not> truthy ipv4 \<and> is_IPv4Address ip then Some netloc else ipv4"
    let ?v6 = "if \<not> truthy ipv6 \<and> is_IPv6Address ip then Some netloc else ipv6"
    have s: "dns_only_loop netloc (ip # rest) ipv4 ipv6 = dns_only_loop netloc rest ?v4 ?v6"
      using False by (auto simp: Let_def)
    have a: "?v4 = None \<or> ?v4 = Some netloc" using Cons.prems by auto
    have b: "?v6 = None \<or> ?v6 = Some netloc" using Cons.prems by auto
    show ?thesis
      unfolding s Cons.IH [OF a b]
      using Cons.prems by (cases ip) (auto simp: truthy_def)
  qed
qed

subsection \<open>The chunk loop\<close>

lemma read_chunks_last:
  assumes "chunks \<noteq> []"
      and "tot + (\<Sum>c\<leftarrow>butlast chunks. int (length (dec c))) \<le> maxsize"
  shows "read_chunks dec maxsize chunks tot t reads =
           (Some (dec (last chunks)), reads + length chunks)"
  using assms
proof (induction chunks arbitrary: tot t reads)
  case Nil
  then show ?case by simp
next
  case (Cons c cs)
  have nonneg: "0 \<le> (\<Sum>c\<leftarrow>butlast (c # cs). int (length (dec c)))"
    by (rule sum_list_nonneg) auto
  with Cons.prems have le: "\<not> tot > maxsize" by linarith
  show ?case
  proof (cases "cs = []")
    case True
    with le show ?thesis by simp
  next
    case False
    with Cons.prems
    have "tot + int (length (dec c)) + (\<Sum>c\<leftarrow>butlast cs. int (length (dec c))) \<le> maxsize"
      by simp
    from Cons.IH [OF False this] le False show ?thesis by simp
  qed
qed

subsection \<open>The two scans of the candidates\<close>

lemma scan_ipv4_all_rejected:
  assumes "list_all (rejected E) ms"
  shows "scan_ipv4 E netloc dns ms v out = (Inr (if ms = [] then v else Some (last ms)), out)"
  using assms
  by (induction ms arbitrary: v) (auto simp: rejected_def split: sum.splits)

lemma scan_ipv6_all_rejected:
  assumes "list_all (rejected E) ms"
  shows "scan_ipv6 E netloc dns ms v out = (Inr (if ms = [] then v else Some (last ms)), out)"
  using assms
  by (induction ms arbitrary: v) (auto simp: rejected_def split: sum.splits)

lemma scan_ipv6_none_accepted:
  assumes "list_all (\<lambda>m. \<not> accepted E m) ms"
  shows "\<exists>v' out'. scan_ipv6 E netloc dns ms v out = (Inr v', out')"
  using assms
  by (induction ms arbitrary: v out) (auto simp: accepted_def split: sum.splits)

lemma rejected_not_accepted: "rejected E m \<Longrightarrow> \<not> accepted E m"
  by (auto simp: rejected_def accepted_def split: sum.splits)

lemma dns_query_of_error: "dns_query_of ip = Inl e \<Longrightarrow> \<exists>msg. e = ValueError msg"
proof (cases ip)
  case (IPv4Address w)
  then show "dns_query_of ip = Inl e \<Longrightarrow> \<exists>msg. e = ValueError msg" by simp
next
  case (IPv6Address w zone)
  then show "dns_query_of ip = Inl e \<Longrightarrow> \<exists>msg. e = ValueError msg"
    by (cases zone) auto
qed

lemma get_ipinfo_not_too_large: "get_ipinfo E s \<noteq> Inl (ResponseTooLarge c m)"
  by (auto simp: get_ipinfo_def split: sum.splits dns_outcome.splits list.splits
           dest: dns_query_of_error)

lemma scan_ipv4_not_too_large:
  "fst (scan_ipv4 E netloc dns ms v out) \<noteq> Inl (ResponseTooLarge c m)"
  by (induction ms arbitrary: v out) (auto simp: get_ipinfo_not_too_large split: sum.splits)

lemma scan_ipv6_not_too_large:
  "fst (scan_ipv6 E netloc dns ms v out) \<noteq> Inl (ResponseTooLarge c m)"
  by (induction ms arbitrary: v out)
     (auto simp: get_ipinfo_not_too_large split: sum.splits exn.splits)

subsection \<open>\<open>replace\<close> on a reverse pointer\<close>

lemma replace_skip_prefix:
  assumes "old \<noteq> []" "hd old \<notin> set p"
  shows "replace (p @ s) old new = p @ replace s old new"
  using assms
proof (induction p)
  case Nil
  then show ?case by simp
next
  case (Cons c p)
  then have "\<not> startswith (c # p @ s) old"
    by (cases old) (auto simp: startswith_def)
  with Cons show ?case by simp
qed

lemma replace_whole:
  assumes "old \<noteq> []"
  shows "replace old old new = new"
proof -
  obtain c cs where old: "old = c # cs" using assms by (cases old) auto
  have "startswith (c # cs) (c # cs)" by (simp add: startswith_def)
  then show ?thesis unfolding old by simp
qed

lemma replace_suffix:
  assumes "old \<noteq> []" "hd old \<notin> set p"
  shows "replace (p @ old) old new = p @ new"
  using assms by (simp add: replace_skip_prefix replace_whole)

lemma set_str_nat: "set (str_nat n) \<subseteq> set ''0123456789''"
proof (induction n rule: str_nat.induct)
  case (1 n)
  have d: "\<And>k. k < 10 \<Longrightarrow> ''0123456789'' ! k \<in> set ''0123456789''"
    by (rule nth_mem) simp
  show ?case
  proof (cases "n < 10")
    case True
    then show ?thesis using d [of n] by (subst str_nat.simps) simp
  next
    case False
    have "n mod 10 < 10" by simp
    from d [OF this] 1 [OF False] False show ?thesis
      by (subst str_nat.simps) simp
  qed
qed

lemma hex_digit_mem: "hex_digit n \<in> set ''0123456789abcdef''"
  unfolding hex_digit_def by (rule nth_mem) simp

lemma set_join: "set (join sep xs) \<subseteq> set sep \<union> (\<Union>x\<in>set xs. set x)"
  by (induction sep xs rule: join.induct) auto

lemma no_i_in_reversed_octets:
  "CHR ''i'' \<notin> set (join ''.'' (rev (map str_nat (octets w))) @ ''.'')"
proof -
  have "set (join ''.'' (rev (map str_nat (octets w)))) \<subseteq> set ''.0123456789''"
    using set_join [of "''.''" "rev (map str_nat (octets w))"] set_str_nat by fastforce
  then show ?thesis by auto
qed

lemma no_i_in_reversed_nibbles: "CHR ''i'' \<notin> set (join ''.'' (reverse_nibbles w) @ ''.'')"
proof -
  have "set x \<subseteq> set ''0123456789abcdef''" if "x \<in> set (reverse_nibbles w)" for x
  proof -
    from that obtain i where "x = [hex_digit (unat w div 16 ^ i)]"
      by (auto simp: reverse_nibbles_def)
    then show ?thesis using hex_digit_mem [of "unat w div 16 ^ i"] by simp
  qed
  then have "set (join ''.'' (reverse_nibbles w)) \<subseteq> set ''.0123456789abcdef''"
    using set_join [of "''.''" "reverse_nibbles w"] by fastforce
  then show ?thesis by auto
qed

lemma dns_query_of_v4:
  "dns_query_of (IPv4Address w) =
     Inr (join ''.'' (rev (map str_nat (octets w))) @ ''.origin.asn.cymru.com'')"
proof -
  have "replace ((join ''.'' (rev (map str_nat (octets w))) @ ''.'') @ ''in-addr.arpa'')
          ''in-addr.arpa'' ''origin.asn.cymru.com'' =
        (join ''.'' (rev (map str_nat (octets w))) @ ''.'') @ ''origin.asn.cymru.com''"
    by (rule replace_suffix) (use no_i_in_reversed_octets in auto)
  then show ?thesis by simp
qed

lemma dns_query_of_v6:
  "dns_query_of (IPv6Address w None) =
     Inr (join ''.'' (reverse_nibbles w) @ ''.origin6.asn.cymru.com'')"
proof -
  have "replace ((join ''.'' (reverse_nibbles w) @ ''.'') @ ''ip6.arpa'')
          ''ip6.arpa'' ''origin6.asn.cymru.com'' =
        (join ''.'' (reverse_nibbles w) @ ''.'') @ ''origin6.asn.cymru.com''"
    by (rule replace_suffix) (use no_i_in_reversed_nibbles in auto)
  then show ?thesis by simp
qed

subsection \<open>The sample collaborators\<close>

lemma sample_resolve_host:
  "resolve_host (sample_env addrs r) ''example.com'' =
     Inr (''http://example.com'', ''example.com'', addrs)"
  by (simp add: resolve_host_def sample_defs)

lemma sample_fetch:
  "fetch (sample_env addrs (sample_response hdrs chunks)) u = Inr (sample_response hdrs chunks)"
  by (simp add: fetch_def sample_defs)

subsection \<open>No scanning loop raises the size error\<close>

lemma scan_ipv4_too_large_False:
  "scan_ipv4 E netloc dns ms v out = (Inl (ResponseTooLarge c m), out') \<Longrightarrow> False"
  using scan_ipv4_not_too_large [of E netloc dns ms v out c m] by simp

lemma scan_ipv6_too_large_False:
  "scan_ipv6 E netloc dns ms v out = (Inl (ResponseTooLarge c m), out') \<Longrightarrow> False"
  using scan_ipv6_not_too_large [of E netloc dns ms v out c m] by simp

section \<open>The formatter\<close>

text \<open>
  Claim C2 gives the output expected for the specification's example. The code prints
  something else. Line 116 puts the brackets into \<^verbatim>\<open>cc_prefix\<close> itself, and lines 136-139
  add brackets again; and since \<^verbatim>\<open>cc_prefix\<close> is \<^verbatim>\<open>[US/NY]\<close>, the comparisons with
  \<^verbatim>\<open>US/CA\<close> and \<^verbatim>\<open>US/NY\<close> of lines 131 and 134 never hold, so the menu line has no city.
  So: for any country table that knows \<open>US\<close>, the example prints the four lines below.
\<close>

theorem fmt_smokeping_spec_example_output:
  assumes "countries_get ''US'' = Some entry"
  shows "fmt_smokeping countries_get ''Test'' ''1.2.3.4'' ''ACME @ DC1'' ''us'' ''ny''
           ''Buffalo'' 2 =
         ([''++ Test'',
           ''menu = [[US/NY]] ACME'',
           ''title = [[US/NY]] ACME @ DC1 - Buffalo, NY, US [1.2.3.4]'',
           ''host = 1.2.3.4''],
          None)"
  using assms by (simp add: fmt_smokeping_def str_defs Let_def numeral_2_eq_2)

theorem fmt_smokeping_spec_example_output_witness:
  "iso_sample ''US'' = Some \<lparr>name = ''United States'', common_name = None\<rparr> \<and>
   fmt_smokeping iso_sample ''Test'' ''1.2.3.4'' ''ACME @ DC1'' ''us'' ''ny'' ''Buffalo'' 2 =
     ([''++ Test'',
       ''menu = [[US/NY]] ACME'',
       ''title = [[US/NY]] ACME @ DC1 - Buffalo, NY, US [1.2.3.4]'',
       ''host = 1.2.3.4''],
      None) \<and>
   fmt_smokeping iso_sample ''Test'' ''1.2.3.4'' ''ACME @ DC1'' ''us'' ''ny'' ''Buffalo'' 2 \<noteq>
     ([''++ Test'',
       ''menu = [US/NY] ACME (Buffalo)'',
       ''title = [US/NY] ACME @ DC1 - Buffalo, NY, US [1.2.3.4]'',
       ''host = 1.2.3.4''],
      None)"
proof -
  have us: "iso_sample ''US'' = Some \<lparr>name = ''United States'', common_name = None\<rparr>"
    by (simp add: iso_sample_def)
  from fmt_smokeping_spec_example_output [where countries_get = iso_sample, OF us] us
  show ?thesis by simp
qed

text \<open>
  Claim C4 says that an unknown country code produces no output at all. Line 105 prints
  the header before line 111 checks the lookup: for the unknown code \<open>xx\<close> the header
  line is printed, then the assertion fails.
\<close>

theorem unknown_country_prints_header_counterexample:
  "iso_sample ''XX'' = None \<and>
   fmt_smokeping iso_sample ''Test'' ''1.2.3.4'' ''ACME'' ''xx'' [] ''Paris'' 2 =
     ([''++ Test''], Some AssertionError)"
  by (simp add: fmt_smokeping_def iso_sample_def str_defs Let_def numeral_2_eq_2)

text \<open>
  Claim C4, amended: when the upper-cased country code (with \<open>UK\<close> looked up as \<open>GB\<close>) is
  not in the table, the formatter fails its assertion, and what it has printed by then
  is the header line alone (nothing when the assertion on a negative nesting level
  fails first): no menu, title or host line.
\<close>

theorem unknown_country_fails_after_header:
  assumes "countries_get (if upper country = ''UK'' then ''GB'' else upper country) = None"
  shows "fmt_smokeping countries_get entry_name address isp country province city levels =
           (if 0 \<le> levels then [replicate (nat levels) CHR ''+'' @ '' '' @ entry_name] else [],
            Some AssertionError)"
  using assms by (simp add: fmt_smokeping_def Let_def)

theorem unknown_country_fails_after_header_witness:
  "iso_sample (if upper ''xx'' = ''UK'' then ''GB'' else upper ''xx'') = None \<and>
   fmt_smokeping iso_sample ''Test'' ''1.2.3.4'' ''ACME'' ''xx'' [] ''Paris'' 1 =
     ([''+ Test''], Some AssertionError)"
proof -
  have h: "iso_sample (if upper ''xx'' = ''UK'' then ''GB'' else upper ''xx'') = None"
    by (simp add: iso_sample_def str_defs)
  from unknown_country_fails_after_header
         [where countries_get = iso_sample and country = "''xx''" and entry_name = "''Test''"
            and address = "''1.2.3.4''" and isp = "''ACME''" and province = "[]"
            and city = "''Paris''" and levels = 1, OF h] h
  show ?thesis by simp
qed

text \<open>
  Claim C10: when the upper-cased country is neither \<open>US\<close> nor \<open>CA\<close>, two calls of the
  formatter that differ only in the province give the same result: the same lines
  printed and the same outcome.
\<close>

theorem province_ignored_outside_us_ca:
  assumes "upper country \<noteq> ''US''" and "upper country \<noteq> ''CA''"
  shows "fmt_smokeping countries_get entry_name address isp country province1 city levels =
         fmt_smokeping countries_get entry_name address isp country province2 city levels"
  using assms by (simp add: fmt_smokeping_def Let_def split: option.splits)

theorem province_ignored_outside_us_ca_witness:
  "upper ''de'' \<noteq> ''US'' \<and> upper ''de'' \<noteq> ''CA'' \<and>
   fmt_smokeping iso_sample ''Test'' ''1.2.3.4'' ''ACME @ DC1'' ''de'' ''ny'' ''Berlin'' 2 =
   fmt_smokeping iso_sample ''Test'' ''1.2.3.4'' ''ACME @ DC1'' ''de'' ''by'' ''Berlin'' 2"
proof -
  have a: "upper ''de'' \<noteq> ''US''" by (simp add: str_defs)
  have b: "upper ''de'' \<noteq> ''CA''" by (simp add: str_defs)
  from province_ignored_outside_us_ca [where country = "''de''", OF a b] a b show ?thesis by blast
qed

section \<open>The ASN lookup\<close>

text \<open>
  An address with a zone id makes \<open>get_ipinfo\<close> raise: line 21 is outside the
  \<^verbatim>\<open>try\<close>. Neither pattern of \<open>scrape_ips\<close> can match a \<^verbatim>\<open>%\<close>, so no candidate it
  hands to \<open>get_ipinfo\<close> has one.
\<close>

lemma dns_query_of_zone:
  "dns_query_of (IPv6Address w (Some zone)) =
     Inl (ValueError (''Only hex digits permitted in zone '' @ zone))"
  by simp

lemma get_ipinfo_zone_id_raises:
  "get_ipinfo (sample_env [] (sample_response [] [])) ''fe80::1%eth0'' =
     Inl (ValueError ''Only hex digits permitted in zone eth0'')"
  by (simp add: get_ipinfo_def sample_defs)

text \<open>
  Claim C8: for a string that parses as an address without a zone id, \<open>get_ipinfo\<close> asks
  for the TXT record of the reversed octets under \<open>origin.asn.cymru.com\<close> (IPv4) or of
  the reversed hexadecimal digits under \<open>origin6.asn.cymru.com\<close> (IPv6). When the
  resolver answers or fails with a \<^verbatim>\<open>DNSException\<close>, \<open>get_ipinfo\<close> returns a string and
  raises nothing: the first record of the answer, or the exception's class, a colon and
  its message.
\<close>

theorem get_ipinfo_never_raises:
  assumes "ip_address E s = Inr ip"
      and "scope_id ip = None"
      and "resolver_answers_or_dns_error (resolve E (origin_query_name ip) ''TXT'')"
  shows "dns_query_of ip = Inr (origin_query_name ip) \<and>
         get_ipinfo E s =
           Inr (case resolve E (origin_query_name ip) ''TXT'' of
                  Answer records \<Rightarrow> hd records
                | DNSException cls msg \<Rightarrow> cls @ '': '' @ msg
                | OtherError cls \<Rightarrow> [])"
proof -
  have q: "dns_query_of ip = Inr (origin_query_name ip)"
  proof (cases ip)
    case (IPv4Address w)
    then show ?thesis by (simp only: dns_query_of_v4 origin_query_name.simps)
  next
    case (IPv6Address w zone)
    with assms(2) have "zone = None" by simp
    with IPv6Address show ?thesis by (simp only: dns_query_of_v6 origin_query_name.simps)
  qed
  moreover have "get_ipinfo E s =
           Inr (case resolve E (origin_query_name ip) ''TXT'' of
                  Answer records \<Rightarrow> hd records
                | DNSException cls msg \<Rightarrow> cls @ '': '' @ msg
                | OtherError cls \<Rightarrow> [])"
    using assms(1,3) q
    by (cases "resolve E (origin_query_name ip) ''TXT''")
       (auto simp: get_ipinfo_def resolver_answers_or_dns_error_def split: list.splits)
  ultimately show ?thesis by blast
qed

theorem get_ipinfo_never_raises_witness:
  "scope_id (IPv4Address 0x08080808) = None \<and>
   dns_query_of (IPv4Address 0x08080808) = Inr ''8.8.8.8.origin.asn.cymru.com'' \<and>
   get_ipinfo (sample_env [] (sample_response [] [])) ''8.8.8.8'' =
     Inr ''15169 | 8.8.8.0/24 | US | arin | 2023-12-28'' \<and>
   dns_query_of (IPv4Address 0x0A000001) = Inr ''1.0.0.10.origin.asn.cymru.com'' \<and>
   get_ipinfo (sample_env [] (sample_response [] [])) ''10.0.0.1'' =
     Inr ''dns.resolver.NXDOMAIN: The DNS query name does not exist''"
proof -
  let ?E = "sample_env [] (sample_response [] [])"
  have n8: "origin_query_name (IPv4Address 0x08080808) = ''8.8.8.8.origin.asn.cymru.com''"
    by (simp add: octets_def str_nat.simps)
  have n10: "origin_query_name (IPv4Address 0x0A000001) = ''1.0.0.10.origin.asn.cymru.com''"
    by (simp add: octets_def str_nat.simps)
  have r8: "resolve ?E ''8.8.8.8.origin.asn.cymru.com'' ''TXT'' =
              Answer [''15169 | 8.8.8.0/24 | US | arin | 2023-12-28'']"
    by (simp add: sample_defs)
  have r10: "resolve ?E ''1.0.0.10.origin.asn.cymru.com'' ''TXT'' =
              DNSException ''dns.resolver.NXDOMAIN'' ''The DNS query name does not exist''"
    by (simp add: sample_defs)
  have p8: "ip_address ?E ''8.8.8.8'' = Inr (IPv4Address 0x08080808)"
    by (simp add: sample_defs)
  have p10: "ip_address ?E ''10.0.0.1'' = Inr (IPv4Address 0x0A000001)"
    by (simp add: sample_defs)
  have z8: "scope_id (IPv4Address 0x08080808) = None" by simp
  have z10: "scope_id (IPv4Address 0x0A000001) = None" by simp
  have ok8: "resolver_answers_or_dns_error
               (resolve ?E (origin_query_name (IPv4Address 0x08080808)) ''TXT'')"
    unfolding n8 r8 by (simp add: resolver_answers_or_dns_error_def)
  have ok10: "resolver_answers_or_dns_error
               (resolve ?E (origin_query_name (IPv4Address 0x0A000001)) ''TXT'')"
    unfolding n10 r10 by (simp add: resolver_answers_or_dns_error_def)
  from get_ipinfo_never_raises [OF p8 z8 ok8]
  have "dns_query_of (IPv4Address 0x08080808) = Inr ''8.8.8.8.origin.asn.cymru.com'' \<and>
        get_ipinfo ?E ''8.8.8.8'' = Inr ''15169 | 8.8.8.0/24 | US | arin | 2023-12-28''"
    unfolding n8 r8 by simp
  moreover from get_ipinfo_never_raises [OF p10 z10 ok10]
  have "dns_query_of (IPv4Address 0x0A000001) = Inr ''1.0.0.10.origin.asn.cymru.com'' \<and>
        get_ipinfo ?E ''10.0.0.1'' =
          Inr ''dns.resolver.NXDOMAIN: The DNS query name does not exist''"
    unfolding n10 r10 by simp
  ultimately show ?thesis using z8 by blast
qed

section \<open>DNS-only mode\<close>

text \<open>
  Claim C7: in DNS-only mode, once the host has resolved, \<open>scrape_ips\<close> returns normally;
  the IPv4 component is the host name when the resolved addresses include an IPv4
  address and \<^verbatim>\<open>None\<close> otherwise, and likewise for IPv6. In particular it returns
  \<^verbatim>\<open>(None, None)\<close> for an empty set. No request is made, so no body is read.
\<close>

theorem dns_only_returns_hostname:
  assumes "resolve_host E url = Inr (url', netloc, dns_results)"
  shows "result (scrape_ips E url True maxsize) =
           Inr (if list_ex is_IPv4Address dns_results then Some netloc else None,
                if list_ex is_IPv6Address dns_results then Some netloc else None) \<and>
         body_reads (scrape_ips E url True maxsize) = 0"
  using assms by (simp add: scrape_ips_def dns_only_loop_eq)

theorem dns_only_returns_hostname_witness:
  "result (scrape_ips (sample_env [IPv4Address 0x08080808, IPv4Address 0x08080404] (sample_response [] []))
             ''example.com'' True 65536) = Inr (Some ''example.com'', None) \<and>
   result (scrape_ips (sample_env [] (sample_response [] [])) ''example.com'' True 65536) = Inr (None, None)"
  using dns_only_returns_hostname
          [of "sample_env [IPv4Address 0x08080808, IPv4Address 0x08080404] (sample_response [] [])" "''example.com''"
              "''http://example.com''" "''example.com''"
              "[IPv4Address 0x08080808, IPv4Address 0x08080404]" 65536,
           OF sample_resolve_host]
        dns_only_returns_hostname
          [of "sample_env [] (sample_response [] [])" "''example.com''" "''http://example.com''" "''example.com''"
              "[]" 65536, OF sample_resolve_host]
  by simp

section \<open>The size check\<close>

text \<open>
  Claim C6: when the response has a \<^verbatim>\<open>Content-Length\<close> header whose integer value is
  over the budget, \<open>scrape_ips\<close> (not in DNS-only mode, the host resolved and the request
  answered with a success status) raises the size error of line 60, and no chunk of the
  body has been taken.
\<close>

theorem content_length_over_budget_fails_before_reading:
  assumes "resolve_host E url = Inr (url', netloc, dns_results)"
      and "fetch E url' = Inr r"
      and "headers r ''Content-Length'' = Some v"
      and "int_of_str E v = Some n"
      and "n > maxsize"
  shows "result (scrape_ips E url False maxsize) = Inl (ResponseTooLarge n maxsize) \<and>
         body_reads (scrape_ips E url False maxsize) = 0"
  using assms by (simp add: scrape_ips_def scrape_response_def content_length_of_def)

theorem content_length_over_budget_fails_before_reading_witness:
  "headers (sample_response [(''Content-Length'', ''100000'')] [''8.8.8.8 hello''])
     ''Content-Length'' = Some ''100000'' \<and>
   result (scrape_ips
             (sample_env [] (sample_response [(''Content-Length'', ''100000'')] [''8.8.8.8 hello'']))
             ''example.com'' False 65536) = Inl (ResponseTooLarge 100000 65536) \<and>
   body_reads (scrape_ips
             (sample_env [] (sample_response [(''Content-Length'', ''100000'')] [''8.8.8.8 hello'']))
             ''example.com'' False 65536) = 0"
proof -
  let ?r = "sample_response [(''Content-Length'', ''100000'')] [''8.8.8.8 hello'']"
  let ?E = "sample_env [] ?r"
  have h: "headers ?r ''Content-Length'' = Some ''100000''" by (simp add: sample_defs)
  have "result (scrape_ips ?E ''example.com'' False 65536) = Inl (ResponseTooLarge 100000 65536) \<and>
        body_reads (scrape_ips ?E ''example.com'' False 65536) = 0"
  proof (rule content_length_over_budget_fails_before_reading
      [where url' = "''http://example.com''" and netloc = "''example.com''"
         and dns_results = "[]" and r = ?r and v = "''100000''"])
    show "resolve_host ?E ''example.com'' = Inr (''http://example.com'', ''example.com'', [])"
      by (rule sample_resolve_host)
    show "fetch ?E ''http://example.com'' = Inr ?r" by (rule sample_fetch)
    show "headers ?r ''Content-Length'' = Some ''100000''" by (rule h)
    show "int_of_str ?E ''100000'' = Some 100000" by (simp add: sample_defs)
    show "(65536::int) < 100000" by simp
  qed
  with h show ?thesis by blast
qed

text \<open>
  Claim C9, for a budget that is not negative, once the host has resolved and the request
  has been answered with a success status: a missing \<^verbatim>\<open>Content-Length\<close> header counts as
  0 and then the size error is not raised, whatever the body is; and the size error is
  raised exactly when the header is present, is an integer, and that integer is over the
  budget.
\<close>

theorem size_exceeded_iff_header_over_budget:
  assumes "resolve_host E url = Inr (url', netloc, dns_results)"
      and "fetch E url' = Inr r"
      and "0 \<le> maxsize"
  shows "(headers r ''Content-Length'' = None \<longrightarrow>
            content_length_of E r = Inr 0 \<and>
            (\<forall>c m. result (scrape_ips E url False maxsize) \<noteq> Inl (ResponseTooLarge c m))) \<and>
         ((\<exists>c m. result (scrape_ips E url False maxsize) = Inl (ResponseTooLarge c m)) \<longleftrightarrow>
          (\<exists>v n. headers r ''Content-Length'' = Some v \<and> int_of_str E v = Some n \<and> n > maxsize))"
proof -
  let ?run = "scrape_response E netloc dns_results r maxsize [PrintDnsResults dns_results]"
  have run: "scrape_ips E url False maxsize = ?run"
    using assms(1,2) by (simp add: scrape_ips_def)
  have big: "result ?run = Inl (ResponseTooLarge n maxsize)"
    if "content_length_of E r = Inr n" "n > maxsize" for n
    using that by (simp add: scrape_response_def)
  have small: "result ?run \<noteq> Inl (ResponseTooLarge c m)"
    if "content_length_of E r = Inr n" "\<not> n > maxsize" for n c m
    using that
    by (auto simp: scrape_response_def split: prod.splits option.splits sum.splits
             dest: scan_ipv4_too_large_False scan_ipv6_too_large_False)
  have err: "result ?run \<noteq> Inl (ResponseTooLarge c m)"
    if "content_length_of E r = Inl e" for e c m
    using that by (auto simp: scrape_response_def content_length_of_def split: option.splits)
  show ?thesis
  proof (cases "headers r ''Content-Length''")
    case None
    then have cl: "content_length_of E r = Inr 0" by (simp add: content_length_of_def)
    from small [OF cl] assms(3) None cl show ?thesis unfolding run by auto
  next
    case (Some v)
    show ?thesis
    proof (cases "int_of_str E v")
      case None
      with Some have "content_length_of E r = Inl (ValueError ''invalid literal for int()'')"
        by (simp add: content_length_of_def)
      from err [OF this] Some None show ?thesis unfolding run by auto
    next
      case (Some n)
      with \<open>headers r ''Content-Length'' = Some v\<close>
      have cl: "content_length_of E r = Inr n" by (simp add: content_length_of_def)
      show ?thesis
      proof (cases "n > maxsize")
        case True
        from big [OF cl True] True Some \<open>headers r ''Content-Length'' = Some v\<close>
        show ?thesis unfolding run by auto
      next
        case False
        from small [OF cl False] False Some \<open>headers r ''Content-Length'' = Some v\<close>
        show ?thesis unfolding run by auto
      qed
    qed
  qed
qed


theorem size_exceeded_iff_header_over_budget_witness:
  "headers (sample_response [] [''8.8.8.8 hello'']) ''Content-Length'' = None \<and>
   content_length_of (sample_env [] (sample_response [] [''8.8.8.8 hello'']))
     (sample_response [] [''8.8.8.8 hello'']) = Inr 0 \<and>
   (\<forall>c m. result (scrape_ips (sample_env [] (sample_response [] [''8.8.8.8 hello'']))
                     ''example.com'' False 65536) \<noteq> Inl (ResponseTooLarge c m))"
proof -
  let ?r = "sample_response [] [''8.8.8.8 hello'']"
  let ?E = "sample_env [] ?r"
  have h: "headers ?r ''Content-Length'' = None" by (simp add: sample_defs)
  have "(headers ?r ''Content-Length'' = None \<longrightarrow>
            content_length_of ?E ?r = Inr 0 \<and>
            (\<forall>c m. result (scrape_ips ?E ''example.com'' False 65536) \<noteq>
                     Inl (ResponseTooLarge c m))) \<and>
         ((\<exists>c m. result (scrape_ips ?E ''example.com'' False 65536) =
                    Inl (ResponseTooLarge c m)) \<longleftrightarrow>
          (\<exists>v n. headers ?r ''Content-Length'' = Some v \<and> int_of_str ?E v = Some n \<and>
                   n > 65536))"
  proof (rule size_exceeded_iff_header_over_budget
      [where url' = "''http://example.com''" and netloc = "''example.com''"
         and dns_results = "[]"])
    show "resolve_host ?E ''example.com'' = Inr (''http://example.com'', ''example.com'', [])"
      by (rule sample_resolve_host)
    show "fetch ?E ''http://example.com'' = Inr ?r" by (rule sample_fetch)
    show "(0::int) \<le> 65536" by simp
  qed
  with h show ?thesis by blast
qed

section \<open>The text that is searched\<close>

text \<open>
  Claim C3 says that the patterns are searched in the decoded text of all the chunks
  read. Line 65 assigns each chunk's text to \<^verbatim>\<open>text\<close> instead of appending it (only
  the length is accumulated, line 66), so the text handed to the two searches is that
  of one chunk. So: when the body arrives as one or more chunks and the chunks before
  the last stay within the budget, every chunk is read and the text searched is the
  decoded last chunk alone.
\<close>

theorem searched_text_is_last_chunk:
  assumes "iter_content r maxsize = chunks"
      and "chunks \<noteq> []"
      and "(\<Sum>c\<leftarrow>butlast chunks. int (length (decode E c))) \<le> maxsize"
  shows "read_chunks (decode E) maxsize (iter_content r maxsize) 0 None 0 =
           (Some (decode E (last chunks)), length chunks)"
  using assms read_chunks_last [of chunks 0 "decode E" maxsize None 0] by simp

theorem searched_text_is_last_chunk_witness:
  "read_chunks (decode (sample_env [] (sample_response [] [''8.8.8.8 '', ''hello''])))
     65536 (iter_content (sample_response [] [''8.8.8.8 '', ''hello'']) 65536) 0 None 0 =
     (Some ''hello'', 2) \<and>
   concat (map (decode (sample_env [] (sample_response [] [''8.8.8.8 '', ''hello''])))
     [''8.8.8.8 '', ''hello'']) = ''8.8.8.8 hello'' \<and>
   result (scrape_ips (sample_env [] (sample_response [] [''8.8.8.8 '', ''hello'']))
             ''example.com'' False 65536) = Inl AssertionError \<and>
   result (scrape_ips (sample_env [] (sample_response [] [''8.8.8.8 hello'']))
             ''example.com'' False 65536) = Inr (Some ''8.8.8.8'', None)"
proof -
  let ?r = "sample_response [] [''8.8.8.8 '', ''hello'']"
  let ?E = "sample_env [] ?r"
  have "read_chunks (decode ?E) 65536 (iter_content ?r 65536) 0 None 0 =
          (Some (decode ?E (last [''8.8.8.8 '', ''hello''])), length [''8.8.8.8 '', ''hello''])"
    by (rule searched_text_is_last_chunk) (simp_all add: sample_defs)
  then have "read_chunks (decode ?E) 65536 (iter_content ?r 65536) 0 None 0 = (Some ''hello'', 2)"
    by (simp add: sample_defs)
  moreover have "concat (map (decode ?E) [''8.8.8.8 '', ''hello'']) = ''8.8.8.8 hello''"
    by (simp add: sample_defs)
  moreover have "result (scrape_ips ?E ''example.com'' False 65536) = Inl AssertionError"
    by (simp add: scrape_ips_def scrape_response_def phase_defs sample_defs truthy_def)
  moreover have "result (scrape_ips (sample_env [] (sample_response [] [''8.8.8.8 hello'']))
             ''example.com'' False 65536) = Inr (Some ''8.8.8.8'', None)"
    by (simp add: scrape_ips_def scrape_response_def phase_defs sample_defs truthy_def
          get_ipinfo_def octets_def str_nat.simps startswith_def)
  ultimately show ?thesis by blast
qed

section \<open>Rejected candidates\<close>

text \<open>
  Claim C1 says that \<open>scrape_ips\<close> never returns a candidate that is not global, wherever
  it stands among the candidates. The code does return one. Lines 69 and 78 assign the
  candidate to \<^verbatim>\<open>ipv4\<close> or \<^verbatim>\<open>ipv6\<close> before it is classified, and the \<^verbatim>\<open>continue\<close>
  of lines 72 and 82 leaves it there; only a parse failure resets \<^verbatim>\<open>ipv6\<close> (line 88).
  So: when the page has candidates of both families, every one of them parses and every
  one is rejected as not global, \<open>scrape_ips\<close> returns the last rejected candidate of
  each family.
\<close>

theorem scrape_ips_returns_rejected_candidates:
  assumes "resolve_host E url = Inr (url', netloc, dns_results)"
      and "fetch E url' = Inr r"
      and "content_length_of E r = Inr content_length"
      and "content_length \<le> maxsize"
      and "read_chunks (decode E) maxsize (iter_content r maxsize) 0 None 0 = (Some t, reads)"
      and "IP4_RE_finditer E t = ms4" and "ms4 \<noteq> []" and "last ms4 \<noteq> []"
      and "list_all (rejected E) ms4"
      and "IP6_RE_finditer E t = ms6" and "ms6 \<noteq> []"
      and "list_all (rejected E) ms6"
  shows "result (scrape_ips E url False maxsize) = Inr (Some (last ms4), Some (last ms6))"
  using assms
  by (simp add: scrape_ips_def scrape_response_def scan_ipv4_all_rejected
        scan_ipv6_all_rejected truthy_def)

theorem scrape_ips_returns_rejected_candidates_witness:
  "in_named_networks (IPv4Address 0x0A000001) \<and>
   in_named_networks (IPv6Address 0xFE800000000000000000000000000001 None) \<and>
   rejected (sample_env [] (sample_response [] [''10.0.0.1 fe80::1''])) ''10.0.0.1'' \<and>
   rejected (sample_env [] (sample_response [] [''10.0.0.1 fe80::1''])) ''fe80::1'' \<and>
   result (scrape_ips (sample_env [] (sample_response [] [''10.0.0.1 fe80::1'']))
             ''example.com'' False 65536) =
     Inr (Some ''10.0.0.1'', Some ''fe80::1'')"
proof -
  let ?r = "sample_response [] [''10.0.0.1 fe80::1'']"
  let ?E = "sample_env [] ?r"
  have rej4: "rejected ?E ''10.0.0.1''" by (simp add: rejected_def sample_defs)
  have rej6: "rejected ?E ''fe80::1''" by (simp add: rejected_def sample_defs)
  have "result (scrape_ips ?E ''example.com'' False 65536) =
          Inr (Some (last [''10.0.0.1'']), Some (last [''fe80::1'']))"
  proof (rule scrape_ips_returns_rejected_candidates
      [where url' = "''http://example.com''" and netloc = "''example.com''"
         and dns_results = "[]" and r = ?r and content_length = 0
         and t = "''10.0.0.1 fe80::1''" and reads = 1])
    show "resolve_host ?E ''example.com'' = Inr (''http://example.com'', ''example.com'', [])"
      by (rule sample_resolve_host)
    show "fetch ?E ''http://example.com'' = Inr ?r" by (rule sample_fetch)
    show "content_length_of ?E ?r = Inr 0" by (simp add: content_length_of_def sample_defs)
    show "(0::int) \<le> 65536" by simp
    show "read_chunks (decode ?E) 65536 (iter_content ?r 65536) 0 None 0 =
            (Some ''10.0.0.1 fe80::1'', 1)"
      by (simp add: sample_defs)
    show "IP4_RE_finditer ?E ''10.0.0.1 fe80::1'' = [''10.0.0.1'']" by (simp add: sample_defs)
    show "IP6_RE_finditer ?E ''10.0.0.1 fe80::1'' = [''fe80::1'']" by (simp add: sample_defs)
    show "list_all (rejected ?E) [''10.0.0.1'']" using rej4 by simp
    show "list_all (rejected ?E) [''fe80::1'']" using rej6 by simp
  qed simp_all
  with rej4 rej6 show ?thesis by simp
qed

text \<open>
  Claim C5 says that \<open>scrape_ips\<close> aborts when classification accepts no address of
  either family. The assertion of line 91 tests the variables, not the classification,
  and a rejected candidate is still in its variable (see C1). So: when no candidate of
  either family is accepted, but the page has IPv4 candidates, all of them parsing and
  rejected, \<open>scrape_ips\<close> returns normally, with the last rejected IPv4 candidate as its
  first component.
\<close>

theorem scrape_ips_returns_without_accepted_address:
  assumes "resolve_host E url = Inr (url', netloc, dns_results)"
      and "fetch E url' = Inr r"
      and "content_length_of E r = Inr content_length"
      and "content_length \<le> maxsize"
      and "read_chunks (decode E) maxsize (iter_content r maxsize) 0 None 0 = (Some t, reads)"
      and "IP4_RE_finditer E t \<noteq> []" and "last (IP4_RE_finditer E t) \<noteq> []"
      and "list_all (rejected E) (IP4_RE_finditer E t)"
      and "list_all (\<lambda>m. \<not> accepted E m) (IP6_RE_finditer E t)"
  shows "\<not> list_ex (accepted E) (IP4_RE_finditer E t @ IP6_RE_finditer E t) \<and>
         (\<exists>ipv6. result (scrape_ips E url False maxsize) =
                    Inr (Some (last (IP4_RE_finditer E t)), ipv6))"
proof -
  from assms(9) obtain v6 out6 where
    s6: "scan_ipv6 E netloc dns_results (IP6_RE_finditer E t) None
           [PrintDnsResults dns_results] = (Inr v6, out6)"
    using scan_ipv6_none_accepted by blast
  have "result (scrape_ips E url False maxsize) = Inr (Some (last (IP4_RE_finditer E t)), v6)"
    using assms(1-8) s6
    by (simp add: scrape_ips_def scrape_response_def scan_ipv4_all_rejected truthy_def)
  moreover have "\<not> list_ex (accepted E) (IP4_RE_finditer E t @ IP6_RE_finditer E t)"
    using assms(8,9) rejected_not_accepted
    by (auto simp: list_ex_iff list_all_iff)
  ultimately show ?thesis by blast
qed

theorem scrape_ips_returns_without_accepted_address_witness:
  "\<not> list_ex (accepted (sample_env [] (sample_response [] [''10.0.0.1''])))
       (IP4_RE_finditer (sample_env [] (sample_response [] [''10.0.0.1''])) ''10.0.0.1'' @
        IP6_RE_finditer (sample_env [] (sample_response [] [''10.0.0.1''])) ''10.0.0.1'') \<and>
   result (scrape_ips (sample_env [] (sample_response [] [''10.0.0.1''])) ''example.com''
             False 65536) = Inr (Some ''10.0.0.1'', None)"
proof -
  let ?r = "sample_response [] [''10.0.0.1'']"
  let ?E = "sample_env [] ?r"
  have m4: "IP4_RE_finditer ?E ''10.0.0.1'' = [''10.0.0.1'']" by (simp add: sample_defs)
  have m6: "IP6_RE_finditer ?E ''10.0.0.1'' = []" by (simp add: sample_defs)
  have "\<not> list_ex (accepted ?E) (IP4_RE_finditer ?E ''10.0.0.1'' @ IP6_RE_finditer ?E ''10.0.0.1'') \<and>
        (\<exists>ipv6. result (scrape_ips ?E ''example.com'' False 65536) =
                   Inr (Some (last (IP4_RE_finditer ?E ''10.0.0.1'')), ipv6))"
  proof (rule scrape_ips_returns_without_accepted_address
      [where url' = "''http://example.com''" and netloc = "''example.com''"
         and dns_results = "[]" and r = ?r and content_length = 0 and reads = 1])
    show "resolve_host ?E ''example.com'' = Inr (''http://example.com'', ''example.com'', [])"
      by (rule sample_resolve_host)
    show "fetch ?E ''http://example.com'' = Inr ?r" by (rule sample_fetch)
    show "content_length_of ?E ?r = Inr 0" by (simp add: content_length_of_def sample_defs)
    show "(0::int) \<le> 65536" by simp
    show "read_chunks (decode ?E) 65536 (iter_content ?r 65536) 0 None 0 =
            (Some ''10.0.0.1'', 1)"
      by (simp add: sample_defs)
    show "list_all (rejected ?E) (IP4_RE_finditer ?E ''10.0.0.1'')"
      unfolding m4 by (simp add: rejected_def sample_defs)
    show "list_all (\<lambda>m. \<not> accepted ?E m) (IP6_RE_finditer ?E ''10.0.0.1'')"
      unfolding m6 by simp
  qed (simp_all add: m4)
  moreover have "result (scrape_ips ?E ''example.com'' False 65536) =
      Inr (Some ''10.0.0.1'', None)"
    by (simp add: scrape_ips_def scrape_response_def phase_defs sample_defs truthy_def)
  ultimately show ?thesis by blast
qed

end
